theory Spec2Isabelle
  imports Complex_Main "HOL-Library.Char_ord" "HOL-Library.List_Lexorder"
begin

section \<open>Python values shared by the scripts\<close>

text \<open>
  Exceptions that derive from \<open>Exception\<close>, which is what \<open>except Exception\<close> and
  a bare \<open>except\<close> around pure string code catch. \<open>LibraryError n\<close> stands for
  any exception raised inside an external library (librosa, soundfile, TTS, the
  operating system); \<open>n\<close> only tells such exceptions apart.
\<close>

datatype exn =
    ValueError
  | IndexError
  | ZeroDivisionError
  | UnboundLocalError
  | FileNotFoundError
  | LibraryError nat

text \<open>
  Text is modelled over ASCII: \<open>str.isspace\<close>, and with it \<open>str.strip\<close>,
  \<open>str.split()\<close> and the regular expression class \<open>\s\<close>, hold for the
  characters 9 to 13, 28 to 31 and the space; \<open>\w\<close> holds for letters, digits
  and the underscore.
\<close>

definition is_space :: "char \<Rightarrow> bool" where
  "is_space c = (let n = (of_char c :: nat) in (9 \<le> n \<and> n \<le> 13) \<or> (28 \<le> n \<and> n \<le> 32))"

definition is_word :: "char \<Rightarrow> bool" where
  "is_word c = (let n = (of_char c :: nat) in
     (48 \<le> n \<and> n \<le> 57) \<or> (65 \<le> n \<and> n \<le> 90) \<or> (97 \<le> n \<and> n \<le> 122) \<or> n = 95)"

text \<open>\<open>s.strip()\<close>\<close>

definition strip :: "string \<Rightarrow> string" where
  "strip s = rev (dropWhile is_space (rev (dropWhile is_space s)))"

text \<open>\<open>s.startswith(p)\<close>\<close>

definition startswith :: "string \<Rightarrow> string \<Rightarrow> bool" where
  "startswith s p = (take (length p) s = p)"

text \<open>\<open>p in s\<close> for strings: \<open>p\<close> occurs in \<open>s\<close> at some position.\<close>

fun contains :: "string \<Rightarrow> string \<Rightarrow> bool" where
  "contains p [] = (p = [])"
| "contains p (c # s) = (startswith (c # s) p \<or> contains p s)"

text \<open>
  \<open>s.split(sep)\<close> for a non-empty \<open>sep\<close> (every call in the scripts passes a
  non-empty literal): the occurrences of \<open>sep\<close> are found from the left and do not
  overlap; \<open>cur\<close> holds, reversed, the characters of the piece being read. After
  a separator the scan resumes \<open>length sep\<close> characters further, which is
  \<open>length sep - 1\<close> characters into the tail.
\<close>

function split_from :: "string \<Rightarrow> string \<Rightarrow> string \<Rightarrow> string list" where
  "split_from sep cur [] = [rev cur]"
| "split_from sep cur (c # s) =
     (if startswith (c # s) sep
      then rev cur # split_from sep [] (drop (length sep - 1) s)
      else split_from sep (c # cur) s)"
  by pat_completeness auto
termination
  by (relation "measure (\<lambda>(sep, cur, s). length s)") auto

definition split :: "string \<Rightarrow> string \<Rightarrow> string list" where
  "split s sep = split_from sep [] s"

text \<open>
  \<open>s.split(sep, 1)\<close>: at most one cut, at the first occurrence of \<open>sep\<close>.
\<close>

fun split1_from :: "string \<Rightarrow> string \<Rightarrow> string \<Rightarrow> string list" where
  "split1_from sep cur [] = [rev cur]"
| "split1_from sep cur (c # s) =
     (if startswith (c # s) sep
      then [rev cur, drop (length sep - 1) s]
      else split1_from sep (c # cur) s)"

definition split1 :: "string \<Rightarrow> string \<Rightarrow> string list" where
  "split1 s sep = split1_from sep [] s"

text \<open>
  \<open>s.split()\<close> without a separator: the maximal runs of non-space characters.
\<close>

fun split_ws_from :: "string \<Rightarrow> string \<Rightarrow> string list" where
  "split_ws_from cur [] = (if cur = [] then [] else [rev cur])"
| "split_ws_from cur (c # s) =
     (if is_space c
      then (if cur = [] then split_ws_from [] s else rev cur # split_ws_from [] s)
      else split_ws_from (c # cur) s)"

definition split_ws :: "string \<Rightarrow> string list" where
  "split_ws s = split_ws_from [] s"

text \<open>\<open>sep.join(parts)\<close>\<close>

fun join :: "string \<Rightarrow> string list \<Rightarrow> string" where
  "join sep [] = []"
| "join sep [p] = p"
| "join sep (p # q # ps) = p @ sep @ join sep (q # ps)"

text \<open>
  \<open>s.replace(old, new)\<close> for a non-empty \<open>old\<close>: every occurrence found from the
  left, without overlap, is replaced.
\<close>

function replace :: "string \<Rightarrow> string \<Rightarrow> string \<Rightarrow> string" where
  "replace [] old new = []"
| "replace (c # s) old new =
     (if startswith (c # s) old
      then new @ replace (drop (length old - 1) s) old new
      else c # replace s old new)"
  by pat_completeness auto
termination
  by (relation "measure (\<lambda>(s, old, new). length s)") auto

text \<open>
  \<open>xs[i]\<close> on a list: IndexError out of range (the scripts only use the indices
  0 and 1).
\<close>

definition item :: "'a list \<Rightarrow> nat \<Rightarrow> exn + 'a" where
  "item xs i = (if i < length xs then Inr (xs ! i) else Inl IndexError)"

text \<open>Sequencing of steps that may raise: the first exception ends the sequence.\<close>

definition and_then :: "exn + 'a \<Rightarrow> ('a \<Rightarrow> exn + 'b) \<Rightarrow> exn + 'b" where
  "and_then r f = (case r of Inl e \<Rightarrow> Inl e | Inr v \<Rightarrow> f v)"

section \<open>Data Validator: \<open>scripts/tools/validate_data.py\<close>\<close>

text \<open>
  A metadata frame is the list of its rows. \<open>pd.read_csv\<close> with the two column
  names gives every row a filename and a transcript; a missing transcript is NaN,
  modelled as \<open>None\<close>.
\<close>

type_synonym row = "string \<times> string option"

text \<open>
  The messages appended to \<open>issues\<close> and \<open>warnings\<close> are f-strings that only
  differ in the numbers they embed; each message shape is a constructor carrying
  those numbers.
\<close>

datatype issue =
    Insufficient_data nat
  | Mismatch nat nat

datatype warning =
    Limited_data nat
  | Duplicate_transcripts nat

record readiness =
  issues :: "issue list"
  warnings :: "warning list"
  ready :: bool

text \<open>
  \<open>df.duplicated('transcript', keep=False)\<close> marks every row whose transcript
  occurs more than once in the column (NaN counts as equal to NaN).
\<close>

definition duplicated_keep_False :: "row list \<Rightarrow> row list" where
  "duplicated_keep_False df =
     filter (\<lambda>r. 1 < count_list (map snd df) (snd r)) df"

text \<open>
  \<open>validate_training_readiness(df, audio_dir)\<close>; \<open>audio_files\<close> is the result of
  \<open>list(Path(audio_dir).glob("*.wav"))\<close>. The printing is left out, the two lists
  and the returned \<open>len(issues) == 0\<close> are kept.
\<close>

definition validate_training_readiness :: "row list \<Rightarrow> string list \<Rightarrow> readiness" where
  "validate_training_readiness df audio_files =
     (let issues0 = [];
          warnings0 = [];
          issues1 = (if length df < 50 then issues0 @ [Insufficient_data (length df)]
                     else issues0);
          warnings1 = (if length df < 50 then warnings0
                       else if length df < 100 then warnings0 @ [Limited_data (length df)]
                       else warnings0);
          issues2 = (if length audio_files = length df then issues1
                     else issues1 @ [Mismatch (length df) (length audio_files)]);
          duplicate_transcripts = duplicated_keep_False df;
          warnings2 = (if length duplicate_transcripts > 0
                       then warnings1 @ [Duplicate_transcripts (length duplicate_transcripts)]
                       else warnings1)
      in \<lparr>issues = issues2, warnings = warnings2, ready = (length issues2 = 0)\<rparr>)"

section \<open>Audio Preprocessor: \<open>scripts/process_audio.py\<close>\<close>

text \<open>
  A waveform is the list of its samples. The samples are rationals: the arithmetic
  of the script is read as exact, the rounding of 32-bit floats and of the 16-bit
  PCM encoding is not modelled, and no statement below depends on a sample's value.
\<close>

type_synonym audio = "rat list"

text \<open>
  The calls into librosa and soundfile, each of which may raise. \<open>sf_write\<close>
  either stores the whole file or raises and stores nothing.
\<close>

record audio_lib =
  librosa_load :: "string \<Rightarrow> exn + (audio \<times> nat)"
  librosa_resample :: "audio \<Rightarrow> nat \<Rightarrow> nat \<Rightarrow> exn + audio"
  librosa_trim :: "audio \<Rightarrow> exn + audio"
  sf_write :: "string \<Rightarrow> audio \<Rightarrow> nat \<Rightarrow> exn + unit"

definition target_sample_rate :: nat where
  "target_sample_rate = 22050"

text \<open>\<open>np.abs(audio).max()\<close>: numpy raises ValueError on an empty array.\<close>

definition np_abs_max :: "audio \<Rightarrow> exn + rat" where
  "np_abs_max a = (if a = [] then Inl ValueError else Inr (Max (set (map abs a))))"

text \<open>
  The body of the \<open>try\<close> for one file, up to and including \<open>sf.write\<close>; it
  returns the waveform that was written.
\<close>

definition process_one :: "audio_lib \<Rightarrow> string \<Rightarrow> exn + audio" where
  "process_one lib name =
     and_then (librosa_load lib name) (\<lambda>(a0, original_sr).
     and_then (if original_sr \<noteq> target_sample_rate
               then librosa_resample lib a0 original_sr target_sample_rate
               else Inr a0) (\<lambda>a1.
     and_then (librosa_trim lib a1) (\<lambda>a2.
     and_then (np_abs_max a2) (\<lambda>peak.
     (let a3 = (if peak > 0 then map (\<lambda>x. x * ((707 / 1000) / peak)) a2 else a2)
      in and_then (sf_write lib name a3 target_sample_rate) (\<lambda>_. Inr a3))))))"

text \<open>
  What a run leaves behind: the files written to the output directory (name,
  waveform, sample rate), one console entry per file, and the running total of the
  durations.
\<close>

datatype file_report =
    Processed string rat
  | Error_processing string exn

record audio_run =
  written :: "(string \<times> audio \<times> nat) list"
  reports :: "file_report list"
  total_duration :: rat

definition audio_start :: audio_run where
  "audio_start = \<lparr>written = [], reports = [], total_duration = 0\<rparr>"

text \<open>The \<open>for\<close> loop with its \<open>try\<close> / \<open>except Exception\<close>.\<close>

fun process_loop :: "audio_lib \<Rightarrow> string list \<Rightarrow> audio_run \<Rightarrow> audio_run" where
  "process_loop lib [] st = st"
| "process_loop lib (name # names) st =
     (case process_one lib name of
        Inr a \<Rightarrow>
          (let duration = rat_of_nat (length a) / rat_of_nat target_sample_rate
           in process_loop lib names
                (st\<lparr>written := written st @ [(name, a, target_sample_rate)],
                    total_duration := total_duration st + duration,
                    reports := reports st @ [Processed name duration]\<rparr>))
      | Inl e \<Rightarrow>
          process_loop lib names (st\<lparr>reports := reports st @ [Error_processing name e]\<rparr>))"

text \<open>
  \<open>process_audio_files()\<close> from the directory listing on: \<open>listing\<close> is what
  \<open>raw_audio_dir.glob("*.wav")\<close> yields. The last \<open>print\<close> divides the total by
  \<open>len(audio_files)\<close>; the function returns the run and that average.
\<close>

definition process_audio_files :: "audio_lib \<Rightarrow> string list \<Rightarrow> exn + (audio_run \<times> rat)" where
  "process_audio_files lib listing =
     (let audio_files = sort listing;
          st = process_loop lib audio_files audio_start
      in if length audio_files = 0 then Inl ZeroDivisionError
         else Inr (st, total_duration st / rat_of_nat (length audio_files)))"

text \<open>The file a console entry is about.\<close>

fun report_name :: "file_report \<Rightarrow> string" where
  "report_name (Processed name d) = name"
| "report_name (Error_processing name e) = name"

text \<open>
  Two libraries to run the loop on: one in which every call raises, and one in
  which only the file \<open>b.wav\<close> cannot be loaded.
\<close>

definition failing_lib :: audio_lib where
  "failing_lib =
     \<lparr>librosa_load = (\<lambda>name. Inl (LibraryError 0)),
      librosa_resample = (\<lambda>a from to. Inl (LibraryError 1)),
      librosa_trim = (\<lambda>a. Inl (LibraryError 2)),
      sf_write = (\<lambda>name a sr. Inl (LibraryError 3))\<rparr>"

definition sample_lib :: audio_lib where
  "sample_lib =
     \<lparr>librosa_load = (\<lambda>name. if name = ''b.wav'' then Inl (LibraryError 0)
                               else Inr ([1 / 2, - 1, 1 / 4], 22050)),
      librosa_resample = (\<lambda>a from to. Inr a),
      librosa_trim = (\<lambda>a. Inr a),
      sf_write = (\<lambda>name a sr. Inr ())\<rparr>"

section \<open>Training Launcher: \<open>scripts/training/arm_max_quality_training.py\<close>\<close>

text \<open>
  What a statement of the \<open>try\<close> body can raise: the operator's interrupt, which
  is a \<open>BaseException\<close> and has a handler of its own, or an \<open>Exception\<close>.
\<close>

datatype raised =
    KeyboardInterrupt
  | Exception exn

text \<open>
  The outside world of one launch: whether \<open>os.chdir\<close>, \<open>subprocess.Popen\<close>,
  the logging block (opening the log file, the header, the loop over
  \<open>process.stdout\<close>) and \<open>process.wait()\<close> raise, and the return code of the
  trainer. \<open>process.terminate()\<close> on a bound process is taken to return.
\<close>

record launch =
  chdir_raises :: "raised option"
  popen_raises :: "raised option"
  logging_raises :: "raised option"
  wait_raises :: "raised option"
  returncode :: int

text \<open>
  A call either returns a value or lets an exception out.
\<close>

datatype 'a outcome =
    Returned 'a
  | Propagated exn

text \<open>
  The \<open>try\<close> body up to the test of the return code. The first component tells
  whether the local variable \<open>process\<close> has been assigned, which happens when
  \<open>Popen\<close> returns.
\<close>

definition try_body :: "launch \<Rightarrow> bool \<times> (raised + int)" where
  "try_body env =
     (case chdir_raises env of Some r \<Rightarrow> (False, Inl r) | None \<Rightarrow>
      (case popen_raises env of Some r \<Rightarrow> (False, Inl r) | None \<Rightarrow>
       (case logging_raises env of Some r \<Rightarrow> (True, Inl r) | None \<Rightarrow>
        (case wait_raises env of Some r \<Rightarrow> (True, Inl r) | None \<Rightarrow>
         (True, Inr (returncode env))))))"

text \<open>
  \<open>start_maximum_quality_training()\<close>: the test of the return code and the two
  handlers. The handler of \<open>KeyboardInterrupt\<close> calls \<open>process.terminate()\<close>
  before it returns False; with \<open>process\<close> unassigned that call raises
  UnboundLocalError inside the handler, which no clause catches.
\<close>

definition start_maximum_quality_training :: "launch \<Rightarrow> bool outcome" where
  "start_maximum_quality_training env =
     (case try_body env of
        (process_bound, Inr rc) \<Rightarrow> (if rc = 0 then Returned True else Returned False)
      | (process_bound, Inl KeyboardInterrupt) \<Rightarrow>
          (if process_bound then Returned False else Propagated UnboundLocalError)
      | (process_bound, Inl (Exception e)) \<Rightarrow> Returned False)"

text \<open>
  \<open>main()\<close>: the three validation steps as their boolean results, then the launch
  (\<open>start_tensorboard\<close> catches its own exceptions and its result is ignored).
\<close>

record launcher =
  environment_ok :: bool
  training_data_ok :: bool
  directories_ok :: bool
  training :: launch

definition launcher_main :: "launcher \<Rightarrow> bool outcome" where
  "launcher_main env =
     (if \<not> environment_ok env then Returned False
      else if \<not> training_data_ok env then Returned False
      else if \<not> directories_ok env then Returned False
      else start_maximum_quality_training (training env))"

text \<open>
  The script: \<open>sys.exit(0 if success else 1)\<close>; an exception that leaves \<open>main\<close>
  ends the interpreter with status 1.
\<close>

definition exit_status :: "launcher \<Rightarrow> int" where
  "exit_status env =
     (case launcher_main env of
        Returned success \<Rightarrow> (if success then 0 else 1)
      | Propagated e \<Rightarrow> 1)"

text \<open>An interrupt that arrives while \<open>os.chdir\<close> runs.\<close>

definition interrupted_before_spawn :: launch where
  "interrupted_before_spawn =
     \<lparr>chdir_raises = Some KeyboardInterrupt, popen_raises = None,
      logging_raises = None, wait_raises = None, returncode = 0\<rparr>"

section \<open>Inference Driver: \<open>scripts/test_model.py\<close> and \<open>scripts/batch_synthesis_mac.py\<close>\<close>

text \<open>
  What a run over a list of texts leaves behind: the texts for which synthesis was
  called, with their 1-based index, and the indices of the output files written
  (\<open>test_sample_{i}.wav\<close>, \<open>sample_{i:03d}.wav\<close>).
\<close>

record synthesis_run =
  attempted :: "(nat \<times> string) list"
  saved :: "nat list"

definition no_run :: synthesis_run where
  "no_run = \<lparr>attempted = [], saved = []\<rparr>"

text \<open>
  The TTS library as \<open>test_model.py\<close> uses it: whether the import succeeds, whether
  loading the model raises, and \<open>tts.tts_to_file(text, file_path)\<close>, which writes
  the file of the given index or raises.
\<close>

record tts_api =
  import_ok :: bool
  load_raises :: "exn option"
  tts_to_file :: "string \<Rightarrow> nat \<Rightarrow> exn option"

text \<open>
  The loop of \<open>test_model_synthesis\<close>. It has no \<open>try\<close> of its own: an exception
  leaves the loop, with the run as it stands, for the handler around the whole
  block.
\<close>

fun test_loop :: "(string \<Rightarrow> nat \<Rightarrow> exn option) \<Rightarrow> (nat \<times> string) list \<Rightarrow> synthesis_run
    \<Rightarrow> synthesis_run \<times> exn option" where
  "test_loop to_file [] st = (st, None)"
| "test_loop to_file ((i, text) # rest) st =
     (case to_file text i of
        Some e \<Rightarrow> (st\<lparr>attempted := attempted st @ [(i, text)]\<rparr>, Some e)
      | None \<Rightarrow> test_loop to_file rest
                 (st\<lparr>attempted := attempted st @ [(i, text)], saved := saved st @ [i]\<rparr>))"

text \<open>
  \<open>test_model_synthesis(checkpoint_path, config_path, test_texts)\<close>, with
  \<open>test_texts\<close> already replaced by the five default sentences when it is None.
  The result is the run and the returned boolean.
\<close>

definition test_model_synthesis :: "tts_api \<Rightarrow> string list \<Rightarrow> synthesis_run \<times> bool" where
  "test_model_synthesis api test_texts =
     (if \<not> import_ok api then (no_run, False)
      else case load_raises api of
        Some e \<Rightarrow> (no_run, False)
      | None \<Rightarrow>
          (case test_loop (tts_to_file api) (enumerate 1 test_texts) no_run of
             (st, None) \<Rightarrow> (st, True)
           | (st, Some e) \<Rightarrow> (st, False)))"

text \<open>
  The synthesizer as \<open>batch_synthesis_mac.py\<close> uses it: whether constructing it
  raises, the lines of the text file (None when the file does not exist),
  \<open>synthesizer.tts(text)\<close> and \<open>synthesizer.save_wav(wav, path)\<close>.
\<close>

record 'w synthesizer =
  construct_raises :: "exn option"
  text_file :: "string list option"
  tts :: "string \<Rightarrow> exn + 'w"
  save_wav :: "'w \<Rightarrow> nat \<Rightarrow> exn option"

text \<open>The loop of \<open>batch_synthesize\<close>, with the \<open>try\<close> inside it.\<close>

fun batch_loop :: "'w synthesizer \<Rightarrow> (nat \<times> string) list \<Rightarrow> synthesis_run \<Rightarrow> synthesis_run" where
  "batch_loop s [] st = st"
| "batch_loop s ((i, text) # rest) st =
     (let st1 = st\<lparr>attempted := attempted st @ [(i, text)]\<rparr>
      in case tts s text of
           Inl e \<Rightarrow> batch_loop s rest st1
         | Inr wav \<Rightarrow>
             (case save_wav s wav i of
                Some e \<Rightarrow> batch_loop s rest st1
              | None \<Rightarrow> batch_loop s rest (st1\<lparr>saved := saved st1 @ [i]\<rparr>)))"

text \<open>
  The list comprehension over the text file: the stripped lines, of the lines that
  are not blank and do not start with \<open>#\<close>.
\<close>

definition kept_lines :: "string list \<Rightarrow> string list" where
  "kept_lines file_lines =
     map strip (filter (\<lambda>line. strip line \<noteq> [] \<and> \<not> startswith line ''#'') file_lines)"

text \<open>
  \<open>batch_synthesize(text_file, output_dir)\<close>: the model is loaded outside any
  \<open>try\<close>, then the text file is read, then the loop runs.
\<close>

definition batch_synthesize :: "'w synthesizer \<Rightarrow> (synthesis_run \<times> bool) outcome" where
  "batch_synthesize s =
     (case construct_raises s of
        Some e \<Rightarrow> Propagated e
      | None \<Rightarrow>
          (case text_file s of
             None \<Rightarrow> Returned (no_run, False)
           | Some file_lines \<Rightarrow>
               (let lines = kept_lines file_lines
                in Returned (batch_loop s (enumerate 1 lines) no_run, True))))"

text \<open>Whether a text of the batch gets its output file.\<close>

definition synthesized :: "'w synthesizer \<Rightarrow> nat \<times> string \<Rightarrow> bool" where
  "synthesized s it =
     (case tts s (snd it) of Inl e \<Rightarrow> False | Inr wav \<Rightarrow> save_wav s wav (fst it) = None)"

text \<open>A library in which only the text \<open>one\<close> cannot be synthesized.\<close>

definition failing_on_one :: tts_api where
  "failing_on_one =
     \<lparr>import_ok = True, load_raises = None,
      tts_to_file = (\<lambda>text i. if text = ''one'' then Some (LibraryError 0) else None)\<rparr>"

definition batch_failing_on_one :: "nat synthesizer" where
  "batch_failing_on_one =
     \<lparr>construct_raises = None, text_file = Some [''one'', ''# note'', '' two ''],
      tts = (\<lambda>text. if text = ''one'' then Inl (LibraryError 0) else Inr 0),
      save_wav = (\<lambda>wav i. None)\<rparr>"

section \<open>Metadata Converter: \<open>scripts/fix_metadata.py\<close> and \<open>scripts/tools/create_metadata.py\<close>\<close>

text \<open>
  The files the two scripts read and write, by their fixed paths: the contents of
  \<open>metadata.csv\<close> and \<open>metadata_ljspeech.csv\<close> (None when the file does not
  exist), the entries of \<open>training.json\<close> as (filename, text) pairs, and what
  \<open>audio_dir.glob("*.wav")\<close> yields, in the order the operating system gives.
\<close>

record files =
  metadata_csv :: "string option"
  metadata_ljspeech_csv :: "string option"
  training_json :: "(string \<times> string) list option"
  raw_audio :: "string list"

text \<open>
  Iterating over a text file: the lines, each with its newline, the last one
  without when the file does not end in one.
\<close>

fun lines_from :: "string \<Rightarrow> string \<Rightarrow> string list" where
  "lines_from cur [] = (if cur = [] then [] else [rev cur])"
| "lines_from cur (c # s) =
     (if c = CHR 0x0A then rev (c # cur) # lines_from [] s else lines_from (c # cur) s)"

definition iter_lines :: "string \<Rightarrow> string list" where
  "iter_lines content = lines_from [] content"

text \<open>\<open>re.sub(r'[^\w\s.,!?-]', '', text)\<close> keeps the characters of the class.\<close>

definition allowed_char :: "char \<Rightarrow> bool" where
  "allowed_char c = (is_word c \<or> is_space c \<or> c \<in> set ''.,!?-'')"

text \<open>\<open>re.sub(r'\s+', ' ', text)\<close>: every maximal run of spaces becomes one space.\<close>

function collapse_spaces :: "string \<Rightarrow> string" where
  "collapse_spaces [] = []"
| "collapse_spaces (c # s) =
     (if is_space c then CHR '' '' # collapse_spaces (dropWhile is_space s)
      else c # collapse_spaces s)"
  by pat_completeness auto
termination
  by (relation "measure length") (auto simp: length_dropWhile_le less_Suc_eq_le)

definition clean_and_normalize_text :: "string \<Rightarrow> string" where
  "clean_and_normalize_text text = strip (collapse_spaces (filter allowed_char text))"

text \<open>
  The body of the loop of \<open>main\<close> in \<open>fix_metadata.py\<close> for one line: the text
  written to the output for it (nothing when the line has no \<open>|\<close>). The unpacking
  \<open>filename, text = line.split('|', 1)\<close> raises ValueError unless the list has two
  elements.
\<close>

definition fix_line :: "string \<Rightarrow> exn + string" where
  "fix_line raw_line =
     (let line = strip raw_line in
      if contains ''|'' line then
        (case split1 line ''|'' of
           [filename, text] \<Rightarrow>
             (let file_id = replace filename ''.wav'' [];
                  cleaned_text = clean_and_normalize_text text
              in Inr (file_id @ ''|'' @ cleaned_text @ ''|'' @ cleaned_text @ [CHR 0x0A]))
         | _ \<Rightarrow> Inl ValueError)
      else Inr [])"

text \<open>
  The loop: \<open>out\<close> is what has been written so far; an exception leaves the loop
  with the output as it stands.
\<close>

fun fix_loop :: "string list \<Rightarrow> string \<Rightarrow> string \<times> exn option" where
  "fix_loop [] out = (out, None)"
| "fix_loop (l # ls) out =
     (case fix_line l of
        Inl e \<Rightarrow> (out, Some e)
      | Inr written_text \<Rightarrow> fix_loop ls (out @ written_text))"

text \<open>
  \<open>main()\<close> of \<open>fix_metadata.py\<close>: the input is opened first (FileNotFoundError
  when it is missing, and then the output is not touched), the output is opened
  with mode \<open>'w'\<close>, which empties it.
\<close>

definition fix_metadata_main :: "files \<Rightarrow> files \<times> exn option" where
  "fix_metadata_main fs =
     (case metadata_csv fs of
        None \<Rightarrow> (fs, Some FileNotFoundError)
      | Some content \<Rightarrow>
          (case fix_loop (iter_lines content) [] of
             (out, err) \<Rightarrow> (fs\<lparr>metadata_ljspeech_csv := Some out\<rparr>, err)))"

text \<open>The variable \<open>filename\<close> of a line, and the first column of a written row.\<close>

definition input_filename :: "string \<Rightarrow> exn + string" where
  "input_filename raw_line = item (split1 (strip raw_line) ''|'') 0"

definition row_identifier :: "string \<Rightarrow> exn + string" where
  "row_identifier row = item (split1 row ''|'') 0"

text \<open>
  \<open>create_metadata_from_json()\<close>: the dictionary is filled from the first 80
  entries, a later entry replacing an earlier one with the same filename.
\<close>

definition filename_to_text :: "(string \<times> string) list \<Rightarrow> (string \<rightharpoonup> string)" where
  "filename_to_text entries = fold (\<lambda>(filename, text) m. m(filename \<mapsto> text)) (take 80 entries) Map.empty"

definition clean_transcript :: "string \<Rightarrow> string" where
  "clean_transcript transcript =
     join '' '' (split_ws (replace (replace transcript [CHR 0x0A] '' '') [CHR 0x0D] '' ''))"

text \<open>The rows written, one per audio file that has a transcript, in sorted order.\<close>

definition metadata_rows :: "(string \<times> string) list \<Rightarrow> string list \<Rightarrow> (string \<times> string) list" where
  "metadata_rows entries listing =
     (let audio_files = sort listing in
      concat (map (\<lambda>filename. case filename_to_text entries filename of
                                  Some transcript \<Rightarrow> [(filename, clean_transcript transcript)]
                                | None \<Rightarrow> [])
                  audio_files))"

definition create_metadata_from_json :: "files \<Rightarrow> files \<times> exn option" where
  "create_metadata_from_json fs =
     (case training_json fs of
        None \<Rightarrow> (fs, Some FileNotFoundError)
      | Some entries \<Rightarrow>
          (fs\<lparr>metadata_csv :=
                Some (concat (map (\<lambda>(filename, transcript). filename @ ''|'' @ transcript @ [CHR 0x0A])
                                  (metadata_rows entries (raw_audio fs))))\<rparr>,
           None))"

text \<open>
  A metadata file that names an audio file the audio directory does not hold.
\<close>

definition ghost_files :: files where
  "ghost_files =
     \<lparr>metadata_csv = Some (''ghost.wav|hello'' @ [CHR 0x0A]), metadata_ljspeech_csv = None,
      training_json = None, raw_audio = []\<rparr>"

text \<open>A project with three recordings, two of them with a transcript.\<close>

definition sample_files :: files where
  "sample_files =
     \<lparr>metadata_csv = None, metadata_ljspeech_csv = Some ''stale'',
      training_json = Some [(''b.wav'', ''x  y''), (''a.wav'', ''first''), (''a.wav'', ''second'')],
      raw_audio = [''c.wav'', ''b.wav'', ''a.wav'']\<rparr>"

section \<open>Theorems\<close>

subsection \<open>Data Validator\<close>

lemma validate_issues:
  "issues (validate_training_readiness df af) =
     (if length df < 50 then [Insufficient_data (length df)] else []) @
     (if length af = length df then [] else [Mismatch (length df) (length af)])"
  by (simp add: validate_training_readiness_def Let_def)

lemma validate_warnings:
  "warnings (validate_training_readiness df af) =
     (if 50 \<le> length df \<and> length df < 100 then [Limited_data (length df)] else []) @
     (if duplicated_keep_False df = [] then []
      else [Duplicate_transcripts (length (duplicated_keep_False df))])"
  by (simp add: validate_training_readiness_def Let_def)

lemma validate_ready:
  "ready (validate_training_readiness df af) = (issues (validate_training_readiness df af) = [])"
  by (simp add: validate_training_readiness_def Let_def)

text \<open>
  C1. The verdict of \<open>validate_training_readiness\<close> is "ready" exactly when the
  metadata has at least 50 rows and as many rows as there are \<open>.wav\<close> files. The
  "insufficient data" error is recorded exactly below 50 rows, the "limited data"
  warning exactly from 50 to 99 rows (and no size error or warning from 100 rows on),
  the mismatch error exactly when the two counts differ, and the verdict is the
  emptiness of the error list alone, so no warning (the duplicate-transcript warning
  included) changes it.
\<close>

theorem validate_training_readiness_verdict:
  "(ready (validate_training_readiness df af) = (50 \<le> length df \<and> length df = length af))
   \<and> ((Insufficient_data n \<in> set (issues (validate_training_readiness df af)))
        = (n = length df \<and> length df < 50))
   \<and> ((Limited_data n \<in> set (warnings (validate_training_readiness df af)))
        = (n = length df \<and> 50 \<le> length df \<and> length df < 100))
   \<and> ((Limited_data n \<in> set (warnings (validate_training_readiness df af))
         \<and> Insufficient_data m \<in> set (issues (validate_training_readiness df af))) = False)
   \<and> ((Mismatch a b \<in> set (issues (validate_training_readiness df af)))
        = (a = length df \<and> b = length af \<and> a \<noteq> b))
   \<and> (ready (validate_training_readiness df af)
        = (issues (validate_training_readiness df af) = []))
   \<and> ((Duplicate_transcripts k \<in> set (warnings (validate_training_readiness df af)))
        = (k = length (duplicated_keep_False df) \<and> 0 < k))"
  unfolding validate_ready validate_issues validate_warnings
  by auto

subsection \<open>Audio Preprocessor\<close>

lemma process_loop_reports:
  "reports (process_loop lib names st) =
     reports st @ map (\<lambda>n. case process_one lib n of
                               Inr a \<Rightarrow> Processed n (rat_of_nat (length a) / rat_of_nat target_sample_rate)
                             | Inl e \<Rightarrow> Error_processing n e) names"
  by (induction names arbitrary: st) (auto split: sum.splits simp: Let_def)

lemma process_loop_written:
  "map fst (written (process_loop lib names st)) =
     map fst (written st) @ filter (\<lambda>n. \<exists>a. process_one lib n = Inr a) names"
  by (induction names arbitrary: st) (auto split: sum.splits simp: Let_def)

lemma and_then_Inr: "and_then r f = Inr v \<Longrightarrow> \<exists>x. r = Inr x \<and> f x = Inr v"
  by (cases r) (simp_all add: and_then_def)

lemma process_one_steps:
  assumes "process_one lib n = Inr a"
  shows "\<exists>a0 sr a1 a2 peak.
        librosa_load lib n = Inr (a0, sr)
      \<and> (if sr \<noteq> target_sample_rate then librosa_resample lib a0 sr target_sample_rate else Inr a0) = Inr a1
      \<and> librosa_trim lib a1 = Inr a2
      \<and> np_abs_max a2 = Inr peak
      \<and> a = (if peak > 0 then map (\<lambda>x. x * ((707 / 1000) / peak)) a2 else a2)
      \<and> sf_write lib n a target_sample_rate = Inr ()"
proof -
  from assms [unfolded process_one_def] obtain p where
    p: "librosa_load lib n = Inr p" and
    k1: "(case p of (a0, original_sr) \<Rightarrow>
     and_then (if original_sr \<noteq> target_sample_rate
               then librosa_resample lib a0 original_sr target_sample_rate
               else Inr a0) (\<lambda>a1.
     and_then (librosa_trim lib a1) (\<lambda>a2.
     and_then (np_abs_max a2) (\<lambda>peak.
     (let a3 = (if peak > 0 then map (\<lambda>x. x * ((707 / 1000) / peak)) a2 else a2)
      in and_then (sf_write lib n a3 target_sample_rate) (\<lambda>_. Inr a3)))))) = Inr a"
    by (blast dest: and_then_Inr)
  obtain a0 sr where p2: "p = (a0, sr)" by (cases p)
  from k1 [unfolded p2 prod.case] obtain a1 where
    s1: "(if sr \<noteq> target_sample_rate then librosa_resample lib a0 sr target_sample_rate else Inr a0) = Inr a1"
    and k2: "and_then (librosa_trim lib a1) (\<lambda>a2.
     and_then (np_abs_max a2) (\<lambda>peak.
     (let a3 = (if peak > 0 then map (\<lambda>x. x * ((707 / 1000) / peak)) a2 else a2)
      in and_then (sf_write lib n a3 target_sample_rate) (\<lambda>_. Inr a3)))) = Inr a"
    by (blast dest: and_then_Inr)
  from k2 obtain a2 where s2: "librosa_trim lib a1 = Inr a2"
    and k3: "and_then (np_abs_max a2) (\<lambda>peak.
     (let a3 = (if peak > 0 then map (\<lambda>x. x * ((707 / 1000) / peak)) a2 else a2)
      in and_then (sf_write lib n a3 target_sample_rate) (\<lambda>_. Inr a3))) = Inr a"
    by (blast dest: and_then_Inr)
  from k3 obtain peak where s3: "np_abs_max a2 = Inr peak"
    and k4: "(let a3 = (if peak > 0 then map (\<lambda>x. x * ((707 / 1000) / peak)) a2 else a2)
      in and_then (sf_write lib n a3 target_sample_rate) (\<lambda>_. Inr a3)) = Inr a"
    by (blast dest: and_then_Inr)
  define a3 where "a3 = (if peak > 0 then map (\<lambda>x. x * ((707 / 1000) / peak)) a2 else a2)"
  from k4 have "and_then (sf_write lib n a3 target_sample_rate) (\<lambda>_. Inr a3) = Inr a"
    by (simp only: Let_def a3_def)
  then obtain u where s4: "sf_write lib n a3 target_sample_rate = Inr u" and s5: "Inr a3 = (Inr a :: exn + audio)"
    by (blast dest: and_then_Inr)
  from s5 have aa: "a = a3" by (simp only: sum.inject)
  have e: "a = (if peak > 0 then map (\<lambda>x. x * ((707 / 1000) / peak)) a2 else a2)"
    using aa a3_def by (simp only:)
  have w: "sf_write lib n a target_sample_rate = Inr ()"
    using s4 aa by simp
  have l: "librosa_load lib n = Inr (a0, sr)"
    using p p2 by (simp only:)
  show ?thesis
    by (rule exI [of _ a0], rule exI [of _ sr], rule exI [of _ a1], rule exI [of _ a2],
        rule exI [of _ peak]) (intro conjI l s1 s2 s3 e w)
qed

lemma process_loop_written_set:
  "fst ` set (written (process_loop lib names audio_start)) =
     {n \<in> set names. \<exists>a. process_one lib n = Inr a}"
proof -
  have "fst ` set (written (process_loop lib names audio_start)) =
        set (map fst (written (process_loop lib names audio_start)))"
    by simp
  also have "\<dots> = set (filter (\<lambda>n. \<exists>a. process_one lib n = Inr a) names)"
    unfolding process_loop_written by (simp add: audio_start_def)
  finally show ?thesis by simp
qed

lemma process_loop_report_names:
  "map report_name (reports (process_loop lib names audio_start)) = names"
proof -
  have "map (report_name \<circ> (\<lambda>n. case process_one lib n of
                               Inr a \<Rightarrow> Processed n (rat_of_nat (length a) / rat_of_nat target_sample_rate)
                             | Inl e \<Rightarrow> Error_processing n e)) names = map id names"
    by (rule map_cong) (auto split: sum.splits)
  then show ?thesis
    unfolding process_loop_reports by (simp add: audio_start_def)
qed

lemma process_loop_error_reported:
  assumes "process_one lib n = Inl e" and "n \<in> set names"
  shows "Error_processing n e \<in> set (reports (process_loop lib names st))"
proof -
  let ?F = "\<lambda>n. case process_one lib n of
                Inr a \<Rightarrow> Processed n (rat_of_nat (length a) / rat_of_nat target_sample_rate)
              | Inl e \<Rightarrow> Error_processing n e"
  have "?F n \<in> ?F ` set names" using assms(2) by (rule imageI)
  moreover have "?F n = Error_processing n e" by (simp only: assms(1) sum.case)
  ultimately have "Error_processing n e \<in> ?F ` set names" by (simp only:)
  then show ?thesis
    by (simp only: process_loop_reports set_append set_map Un_iff simp_thms)
qed

text \<open>
  C5. Every file of the batch gets its console entry, in order, whatever happens to
  the other files: the loop is never cut short. A file on which a step raises is
  reported as an error and is not among the files written; a file that is written
  is one on which loading, resampling (when needed), trimming, the peak and the
  write itself all returned.
\<close>

theorem process_audio_failure_isolated:
  "map report_name (reports (process_loop lib names audio_start)) = names
   \<and> (\<forall>e. process_one lib n = Inl e \<longrightarrow>
         n \<notin> fst ` set (written (process_loop lib names audio_start))
         \<and> (n \<in> set names \<longrightarrow>
              Error_processing n e \<in> set (reports (process_loop lib names audio_start))))
   \<and> (n \<in> fst ` set (written (process_loop lib names audio_start)) \<longrightarrow>
        n \<in> set names \<and>
        (\<exists>a0 sr a1 a2 peak.
           librosa_load lib n = Inr (a0, sr)
         \<and> (if sr \<noteq> target_sample_rate
             then librosa_resample lib a0 sr target_sample_rate else Inr a0) = Inr a1
         \<and> librosa_trim lib a1 = Inr a2
         \<and> np_abs_max a2 = Inr peak
         \<and> sf_write lib n (if peak > 0 then map (\<lambda>x. x * ((707 / 1000) / peak)) a2 else a2)
              target_sample_rate = Inr ()))"
proof (intro conjI allI impI)
  show "map report_name (reports (process_loop lib names audio_start)) = names"
    by (rule process_loop_report_names)
next
  fix e assume "process_one lib n = Inl e"
  then show "n \<notin> fst ` set (written (process_loop lib names audio_start))"
    by (simp add: process_loop_written_set)
next
  fix e assume "process_one lib n = Inl e" and "n \<in> set names"
  then show "Error_processing n e \<in> set (reports (process_loop lib names audio_start))"
    by (rule process_loop_error_reported)
next
  assume "n \<in> fst ` set (written (process_loop lib names audio_start))"
  then show "n \<in> set names" by (simp add: process_loop_written_set)
next
  assume "n \<in> fst ` set (written (process_loop lib names audio_start))"
  then obtain a where a: "process_one lib n = Inr a"
    unfolding process_loop_written_set by blast
  from process_one_steps [OF a] obtain a0 sr a1 a2 peak where
    "librosa_load lib n = Inr (a0, sr)"
    "(if sr \<noteq> target_sample_rate then librosa_resample lib a0 sr target_sample_rate else Inr a0) = Inr a1"
    "librosa_trim lib a1 = Inr a2" "np_abs_max a2 = Inr peak"
    "a = (if peak > 0 then map (\<lambda>x. x * ((707 / 1000) / peak)) a2 else a2)"
    "sf_write lib n a target_sample_rate = Inr ()"
    by blast
  then show "\<exists>a0 sr a1 a2 peak.
           librosa_load lib n = Inr (a0, sr)
         \<and> (if sr \<noteq> target_sample_rate
             then librosa_resample lib a0 sr target_sample_rate else Inr a0) = Inr a1
         \<and> librosa_trim lib a1 = Inr a2
         \<and> np_abs_max a2 = Inr peak
         \<and> sf_write lib n (if peak > 0 then map (\<lambda>x. x * ((707 / 1000) / peak)) a2 else a2)
              target_sample_rate = Inr ()"
    by blast
qed

lemma sample_lib_a: "process_one sample_lib ''a.wav'' = Inr [707 / 2000, - (707 / 1000), 707 / 4000]"
  by (simp add: process_one_def sample_lib_def and_then_def np_abs_max_def target_sample_rate_def)

lemma sample_lib_b: "process_one sample_lib ''b.wav'' = Inl (LibraryError 0)"
  by (simp add: process_one_def sample_lib_def and_then_def)

lemma sample_lib_c: "process_one sample_lib ''c.wav'' = Inr [707 / 2000, - (707 / 1000), 707 / 4000]"
  by (simp add: process_one_def sample_lib_def and_then_def np_abs_max_def target_sample_rate_def)

lemma sample_lib_written: "map fst (written (process_loop sample_lib [''a.wav'', ''b.wav'', ''c.wav''] audio_start))
        = [''a.wav'', ''c.wav'']"
  by (simp add: sample_lib_a sample_lib_b sample_lib_c audio_start_def Let_def)


text \<open>The loop of C5 on three files of which the second cannot be loaded.\<close>

theorem process_audio_failure_isolated_witness:
  "process_one sample_lib ''b.wav'' = Inl (LibraryError 0)
   \<and> ''b.wav'' \<notin> fst ` set (written (process_loop sample_lib [''a.wav'', ''b.wav'', ''c.wav''] audio_start))
   \<and> Error_processing ''b.wav'' (LibraryError 0)
        \<in> set (reports (process_loop sample_lib [''a.wav'', ''b.wav'', ''c.wav''] audio_start))
   \<and> map report_name (reports (process_loop sample_lib [''a.wav'', ''b.wav'', ''c.wav''] audio_start))
        = [''a.wav'', ''b.wav'', ''c.wav'']
   \<and> map fst (written (process_loop sample_lib [''a.wav'', ''b.wav'', ''c.wav''] audio_start))
        = [''a.wav'', ''c.wav'']"
proof -
  have m: "''b.wav'' \<in> set [''a.wav'', ''b.wav'', ''c.wav'']" by simp
  from process_audio_failure_isolated [of sample_lib "[''a.wav'', ''b.wav'', ''c.wav'']" "''b.wav''"]
  have "''b.wav'' \<notin> fst ` set (written (process_loop sample_lib [''a.wav'', ''b.wav'', ''c.wav''] audio_start))"
    and "Error_processing ''b.wav'' (LibraryError 0)
        \<in> set (reports (process_loop sample_lib [''a.wav'', ''b.wav'', ''c.wav''] audio_start))"
    and "map report_name (reports (process_loop sample_lib [''a.wav'', ''b.wav'', ''c.wav''] audio_start))
        = [''a.wav'', ''b.wav'', ''c.wav'']"
    using sample_lib_b m by blast+
  with sample_lib_b sample_lib_written show ?thesis by (intro conjI)
qed

lemma sort_not_Nil: "listing \<noteq> [] \<Longrightarrow> sort listing \<noteq> ([] :: string list)"
  using length_sort [of "\<lambda>x. x" listing] by (cases "sort listing") auto

text \<open>
  C10. Over a listing with at least one \<open>.wav\<close> file \<open>process_audio_files\<close>
  returns, with one console entry per file in sorted order, whatever the library
  calls do (so also when every file fails); over an empty listing the average of
  the summary divides by zero and the function raises ZeroDivisionError.
\<close>

theorem process_audio_files_average:
  "(listing \<noteq> [] \<longrightarrow>
      (\<exists>st avg. process_audio_files lib listing = Inr (st, avg)
          \<and> map report_name (reports st) = sort listing))
   \<and> process_audio_files lib [] = Inl ZeroDivisionError"
proof (intro conjI impI)
  assume "listing \<noteq> []"
  then have "sort listing \<noteq> []" by (rule sort_not_Nil)
  then show "\<exists>st avg. process_audio_files lib listing = Inr (st, avg)
          \<and> map report_name (reports st) = sort listing"
    by (simp add: process_audio_files_def Let_def process_loop_report_names)
next
  show "process_audio_files lib [] = Inl ZeroDivisionError"
    by (simp add: process_audio_files_def)
qed

lemma failing_lib_one: "process_one failing_lib n = Inl (LibraryError 0)"
  by (simp add: process_one_def failing_lib_def and_then_def)

lemma sort_ba: "sort [''b.wav'', ''a.wav''] = [''a.wav'', ''b.wav'']"
  by code_simp


lemma failing_lib_written: "written (process_loop failing_lib [''a.wav'', ''b.wav''] audio_start) = []"
  by (simp add: failing_lib_one audio_start_def)

lemma failing_lib_run:
  "process_audio_files failing_lib [''b.wav'', ''a.wav''] =
     Inr (process_loop failing_lib [''a.wav'', ''b.wav''] audio_start,
          total_duration (process_loop failing_lib [''a.wav'', ''b.wav''] audio_start) / 2)"
  unfolding process_audio_files_def Let_def sort_ba by simp

text \<open>A run in which both files fail, and the empty run.\<close>

theorem process_audio_files_average_witness:
  "(\<exists>st avg. process_audio_files failing_lib [''b.wav'', ''a.wav''] = Inr (st, avg)
          \<and> map report_name (reports st) = [''a.wav'', ''b.wav''] \<and> written st = [])
   \<and> process_audio_files failing_lib [] = Inl ZeroDivisionError"
proof -
  have n: "[''b.wav'', ''a.wav''] \<noteq> ([] :: string list)" by simp
  from process_audio_files_average [of "[''b.wav'', ''a.wav'']" failing_lib] n
  obtain st avg where r: "process_audio_files failing_lib [''b.wav'', ''a.wav''] = Inr (st, avg)"
    and m: "map report_name (reports st) = sort [''b.wav'', ''a.wav'']"
    and z: "process_audio_files failing_lib [] = Inl ZeroDivisionError"
    by blast
  from r have "st = process_loop failing_lib [''a.wav'', ''b.wav''] audio_start"
    unfolding failing_lib_run by simp
  then have w: "written st = []" by (simp only: failing_lib_written)
  from m have m': "map report_name (reports st) = [''a.wav'', ''b.wav'']"
    by (simp only: sort_ba)
  from r m' w have "\<exists>st avg. process_audio_files failing_lib [''b.wav'', ''a.wav''] = Inr (st, avg)
          \<and> map report_name (reports st) = [''a.wav'', ''b.wav''] \<and> written st = []"
    by (intro exI conjI)
  with z show ?thesis by (intro conjI)
qed

subsection \<open>Training Launcher\<close>

lemma start_True_iff:
  "(start_maximum_quality_training env = Returned True) =
     (chdir_raises env = None \<and> popen_raises env = None \<and> logging_raises env = None
      \<and> wait_raises env = None \<and> returncode env = 0)"
  by (auto simp: start_maximum_quality_training_def try_body_def
      split: option.splits raised.splits)

lemma start_after_spawn:
  "chdir_raises env = None \<Longrightarrow> popen_raises env = None \<Longrightarrow>
     start_maximum_quality_training env =
       Returned (logging_raises env = None \<and> wait_raises env = None \<and> returncode env = 0)"
  by (auto simp: start_maximum_quality_training_def try_body_def
      split: option.splits raised.splits)

lemma start_Exception:
  "try_body env = (b, Inl (Exception e)) \<Longrightarrow> start_maximum_quality_training env = Returned False"
  by (simp add: start_maximum_quality_training_def)

lemma exit_status_zero_iff:
  "(exit_status env = 0) = (launcher_main env = Returned True)"
  by (auto simp: exit_status_def split: outcome.splits)

lemma exit_status_zero_iff_returncode:
  "(exit_status env = 0) =
     (environment_ok env \<and> training_data_ok env \<and> directories_ok env
      \<and> chdir_raises (training env) = None \<and> popen_raises (training env) = None
      \<and> logging_raises (training env) = None \<and> wait_raises (training env) = None
      \<and> returncode (training env) = 0)"
  unfolding exit_status_zero_iff
  by (auto simp: launcher_main_def start_True_iff)

text \<open>
  C2. The claim is that the launcher returns True exactly when the trainer exits
  with code zero, and that a non-zero exit, an operator interruption and any
  exception all yield False. The first half holds (\<open>start_True_iff\<close>,
  \<open>exit_status_zero_iff_returncode\<close>), and so does the second once the process is
  spawned (\<open>start_after_spawn\<close>, \<open>start_Exception\<close>). An interruption that arrives
  before \<open>Popen\<close> has returned does not yield False: the handler's
  \<open>process.terminate()\<close> raises UnboundLocalError, which leaves the function.
\<close>

theorem interrupt_before_spawn_propagates:
  "start_maximum_quality_training interrupted_before_spawn = Propagated UnboundLocalError
   \<and> start_maximum_quality_training interrupted_before_spawn \<noteq> Returned False"
  by (simp add: start_maximum_quality_training_def try_body_def interrupted_before_spawn_def)

subsection \<open>Inference Driver\<close>

lemma batch_loop_attempted:
  "attempted (batch_loop s its st) = attempted st @ its"
  by (induction s its st rule: batch_loop.induct) (auto simp: Let_def split: sum.splits option.splits)

lemma batch_loop_saved:
  "saved (batch_loop s its st) = saved st @ map fst (filter (synthesized s) its)"
  by (induction s its st rule: batch_loop.induct)
     (auto simp: Let_def synthesized_def split: sum.splits option.splits)

lemma test_loop_attempted:
  "attempted (fst (test_loop f its st)) =
     attempted st @ take (Suc (length (takeWhile (\<lambda>(i, t). f t i = None) its))) its"
  by (induction f its st rule: test_loop.induct) (auto split: option.splits)

lemma test_loop_saved:
  "saved (fst (test_loop f its st)) =
     saved st @ map fst (takeWhile (\<lambda>(i, t). f t i = None) its)"
  by (induction f its st rule: test_loop.induct) (auto split: option.splits)

lemma test_loop_result:
  "(snd (test_loop f its st) = None) = (\<forall>(i, t) \<in> set its. f t i = None)"
  by (induction f its st rule: test_loop.induct) (auto split: option.splits)

text \<open>
  In \<open>test_model_synthesis\<close> the first text fails and the second, which would have
  succeeded, is never attempted.
\<close>

theorem test_model_synthesis_stops_at_failure:
  "fst (test_model_synthesis failing_on_one [''one'', ''two'']) =
     \<lparr>attempted = [(1, ''one'')], saved = []\<rparr>
   \<and> (2, ''two'') \<notin> set (attempted (fst (test_model_synthesis failing_on_one [''one'', ''two''])))
   \<and> tts_to_file failing_on_one ''two'' 2 = None"
  by (simp add: test_model_synthesis_def failing_on_one_def no_run_def enumerate_eq_zip)


text \<open>
  C3, amended. In \<open>batch_synthesize\<close> every kept line of the text file is attempted,
  whatever happened to the lines before it, and the output files are those of the
  lines whose synthesis and save both returned, each under its own index. In
  \<open>test_model_synthesis\<close> the texts are attempted up to and including the first
  one that fails, the files written are those before it, and the function returns
  True exactly when no text failed.
\<close>

theorem synthesis_failure_isolation:
  "(construct_raises s = None \<longrightarrow> text_file s = Some file_lines \<longrightarrow>
      (\<exists>st. batch_synthesize s = Returned (st, True)
         \<and> attempted st = enumerate 1 (kept_lines file_lines)
         \<and> saved st = map fst (filter (synthesized s) (enumerate 1 (kept_lines file_lines)))))
   \<and> (import_ok api \<longrightarrow> load_raises api = None \<longrightarrow>
        attempted (fst (test_model_synthesis api texts)) =
          take (Suc (length (takeWhile (\<lambda>(i, t). tts_to_file api t i = None) (enumerate 1 texts))))
               (enumerate 1 texts)
        \<and> saved (fst (test_model_synthesis api texts)) =
            map fst (takeWhile (\<lambda>(i, t). tts_to_file api t i = None) (enumerate 1 texts))
        \<and> snd (test_model_synthesis api texts) =
            (\<forall>(i, t) \<in> set (enumerate 1 texts). tts_to_file api t i = None))"
proof (intro conjI impI)
  assume "construct_raises s = None" and "text_file s = Some file_lines"
  then have "batch_synthesize s =
      Returned (batch_loop s (enumerate 1 (kept_lines file_lines)) no_run, True)"
    by (simp add: batch_synthesize_def)
  then show "\<exists>st. batch_synthesize s = Returned (st, True)
         \<and> attempted st = enumerate 1 (kept_lines file_lines)
         \<and> saved st = map fst (filter (synthesized s) (enumerate 1 (kept_lines file_lines)))"
    by (simp add: batch_loop_attempted batch_loop_saved no_run_def)
next
  assume a: "import_ok api" "load_raises api = None"
  let ?r = "test_loop (tts_to_file api) (enumerate 1 texts) no_run"
  have f: "fst (test_model_synthesis api texts) = fst ?r"
    using a by (simp add: test_model_synthesis_def split: prod.splits option.splits)
  have b: "snd (test_model_synthesis api texts) = (snd ?r = None)"
    using a by (simp add: test_model_synthesis_def split: prod.splits option.splits)
  show "attempted (fst (test_model_synthesis api texts)) =
          take (Suc (length (takeWhile (\<lambda>(i, t). tts_to_file api t i = None) (enumerate 1 texts))))
               (enumerate 1 texts)"
    unfolding f test_loop_attempted by (simp add: no_run_def)
  show "saved (fst (test_model_synthesis api texts)) =
            map fst (takeWhile (\<lambda>(i, t). tts_to_file api t i = None) (enumerate 1 texts))"
    unfolding f test_loop_saved by (simp add: no_run_def)
  show "snd (test_model_synthesis api texts) =
            (\<forall>(i, t) \<in> set (enumerate 1 texts). tts_to_file api t i = None)"
    unfolding b by (rule test_loop_result)
qed

lemma kept_lines_sample: "kept_lines [''one'', ''# note'', '' two ''] = [''one'', ''two'']"
  by (simp add: kept_lines_def strip_def startswith_def is_space_def)


lemma batch_failing_on_one_fields:
  "construct_raises batch_failing_on_one = None"
  "text_file batch_failing_on_one = Some [''one'', ''# note'', '' two '']"
  "synthesized batch_failing_on_one (i, ''one'') = False"
  "synthesized batch_failing_on_one (i, ''two'') = True"
  by (simp_all add: batch_failing_on_one_def synthesized_def)

lemma failing_on_one_fields:
  "import_ok failing_on_one" "load_raises failing_on_one = None"
  "tts_to_file failing_on_one ''one'' (Suc 0) = Some (LibraryError 0)"
  by (simp_all add: failing_on_one_def)

text \<open>Both drivers on two texts of which the first fails.\<close>

theorem synthesis_failure_isolation_witness:
  "(\<exists>st. batch_synthesize batch_failing_on_one = Returned (st, True)
      \<and> attempted st = [(1, ''one''), (2, ''two'')] \<and> saved st = [2])
   \<and> attempted (fst (test_model_synthesis failing_on_one [''one'', ''two''])) = [(1, ''one'')]
   \<and> saved (fst (test_model_synthesis failing_on_one [''one'', ''two''])) = []
   \<and> snd (test_model_synthesis failing_on_one [''one'', ''two'']) = False"
  using synthesis_failure_isolation
    [of batch_failing_on_one "[''one'', ''# note'', '' two '']" failing_on_one "[''one'', ''two'']"]
  by (simp add: batch_failing_on_one_fields failing_on_one_fields kept_lines_sample
      enumerate_eq_zip upt_rec numeral_2_eq_2)

subsection \<open>Metadata Converter\<close>

lemma startswith_single: "startswith (x # s) [c] = (x = c)"
  by (simp add: startswith_def)

lemma contains_single: "contains [c] s = (c \<in> set s)"
  by (induction s) (auto simp: startswith_single)

lemma split1_from_single:
  "split1_from [c] cur s =
     (if c \<in> set s
      then [rev cur @ takeWhile (\<lambda>x. x \<noteq> c) s, tl (dropWhile (\<lambda>x. x \<noteq> c) s)]
      else [rev cur @ s])"
  by (induction s arbitrary: cur) (auto simp: startswith_single)

lemma split1_single:
  "split1 s [c] =
     (if c \<in> set s
      then [takeWhile (\<lambda>x. x \<noteq> c) s, tl (dropWhile (\<lambda>x. x \<noteq> c) s)]
      else [s])"
  by (simp add: split1_def split1_from_single)

lemma fix_line_eq:
  "fix_line raw =
     (if CHR ''|'' \<in> set (strip raw)
      then Inr (replace (takeWhile (\<lambda>x. x \<noteq> CHR ''|'') (strip raw)) ''.wav'' [] @ ''|''
                @ clean_and_normalize_text (tl (dropWhile (\<lambda>x. x \<noteq> CHR ''|'') (strip raw))) @ ''|''
                @ clean_and_normalize_text (tl (dropWhile (\<lambda>x. x \<noteq> CHR ''|'') (strip raw)))
                @ [CHR 0x0A])
      else Inr [])"
  by (simp add: fix_line_def Let_def contains_single split1_single)

lemma fix_loop_never_raises: "snd (fix_loop ls out) = None"
  by (induction ls arbitrary: out) (auto simp: fix_line_eq)

lemma startswith_wav_short:
  assumes "\<not> startswith (x # xs) ''.wav''"
  shows "\<not> startswith (x # xs @ ''.wav'') ''.wav''"
proof (cases xs)
  case Nil then show ?thesis by (auto simp: startswith_def)
next
  case (Cons a as)
  show ?thesis
  proof (cases as)
    case Nil with Cons show ?thesis by (auto simp: startswith_def)
  next
    case (Cons b bs)
    note c2 = this
    show ?thesis
    proof (cases bs)
      case Nil with c2 \<open>xs = a # as\<close> show ?thesis by (auto simp: startswith_def)
    next
      case (Cons d ds)
      with c2 \<open>xs = a # as\<close> assms show ?thesis by (auto simp: startswith_def)
    qed
  qed
qed

lemma replace_wav_suffix:
  "\<not> contains ''.wav'' stem \<Longrightarrow> replace (stem @ ''.wav'') ''.wav'' [] = stem"
proof (induction stem)
  case Nil
  show ?case by (simp add: startswith_def)
next
  case (Cons x xs)
  then have a: "\<not> startswith (x # xs) ''.wav''" and b: "\<not> contains ''.wav'' xs" by auto
  from startswith_wav_short [OF a] have "\<not> startswith ((x # xs) @ ''.wav'') ''.wav''" by simp
  then show ?case using Cons.IH [OF b] by simp
qed

lemma item_0: "item (x # xs) 0 = Inr x"
  by (simp add: item_def)

lemma takeWhile_upto:
  "c \<notin> set a \<Longrightarrow> takeWhile (\<lambda>x. x \<noteq> c) (a @ c # rest) = a"
  by (induction a) auto

lemma row_identifier_eq:
  "CHR ''|'' \<notin> set a \<Longrightarrow> row_identifier (a @ ''|'' @ rest) = Inr a"
  by (simp add: row_identifier_def split1_single item_0 takeWhile_upto)

lemma input_filename_eq:
  "CHR ''|'' \<in> set (strip raw) \<Longrightarrow>
     input_filename raw = Inr (takeWhile (\<lambda>x. x \<noteq> CHR ''|'') (strip raw))"
  by (simp add: input_filename_def split1_single item_0)

lemma fix_line_identifier:
  assumes "contains ''|'' (strip raw)"
    and "input_filename raw = Inr (stem @ ''.wav'')"
    and "\<not> contains ''.wav'' stem"
  shows "\<exists>row. fix_line raw = Inr row \<and> row_identifier row = Inr stem"
proof -
  from assms(1) have p: "CHR ''|'' \<in> set (strip raw)" by (simp add: contains_single)
  from assms(2) have f: "takeWhile (\<lambda>x. x \<noteq> CHR ''|'') (strip raw) = stem @ ''.wav''"
    by (simp add: input_filename_eq [OF p])
  have "\<forall>x \<in> set (takeWhile (\<lambda>x. x \<noteq> CHR ''|'') (strip raw)). x \<noteq> CHR ''|''"
    by (metis set_takeWhileD)
  then have n: "CHR ''|'' \<notin> set stem" unfolding f by auto
  have "fix_line raw = Inr (stem @ ''|''
                @ (clean_and_normalize_text (tl (dropWhile (\<lambda>x. x \<noteq> CHR ''|'') (strip raw))) @ ''|''
                @ clean_and_normalize_text (tl (dropWhile (\<lambda>x. x \<noteq> CHR ''|'') (strip raw)))
                @ [CHR 0x0A]))"
    using p by (simp add: fix_line_eq f replace_wav_suffix [OF assms(3)])
  then show ?thesis using row_identifier_eq [OF n] by blast
qed

lemma fold_update_source:
  "fold (\<lambda>(k, v) m. m(k \<mapsto> v)) xs m k = Some v \<Longrightarrow> (k, v) \<in> set xs \<or> m k = Some v"
proof (induction xs arbitrary: m)
  case Nil
  then show ?case by simp
next
  case (Cons x xs)
  obtain a b where x: "x = (a, b)" by (cases x)
  from Cons.prems have "fold (\<lambda>(k, v) m. m(k \<mapsto> v)) xs (m(a \<mapsto> b)) k = Some v"
    by (simp only: x fold.simps comp_apply prod.case)
  from Cons.IH [OF this] show ?case
    by (auto simp: x split: if_splits)
qed

lemma filename_to_text_source:
  "filename_to_text entries f = Some tr \<Longrightarrow> (f, tr) \<in> set (take 80 entries)"
  unfolding filename_to_text_def by (drule fold_update_source) simp

lemma metadata_rows_sound:
  assumes "(f, t) \<in> set (metadata_rows entries listing)"
  shows "f \<in> set listing \<and> (\<exists>tr. (f, tr) \<in> set (take 80 entries) \<and> t = clean_transcript tr)"
proof -
  from assms obtain g where g: "g \<in> set (sort listing)"
    and m: "(f, t) \<in> set (case filename_to_text entries g of
                                  Some transcript \<Rightarrow> [(g, clean_transcript transcript)]
                                | None \<Rightarrow> [])"
    by (auto simp: metadata_rows_def Let_def)
  from m obtain tr where "filename_to_text entries g = Some tr" and "f = g" and "t = clean_transcript tr"
    by (cases "filename_to_text entries g") auto
  with g filename_to_text_source show ?thesis by auto
qed

text \<open>
  \<open>fix_metadata.py\<close> on a metadata file whose only line names \<open>ghost.wav\<close>, with
  an empty audio directory: the row is written, and its identifier with \<open>.wav\<close>
  is not the name of any audio file.
\<close>

theorem fix_metadata_unchecked_audio:
  "fix_metadata_main ghost_files =
     (ghost_files\<lparr>metadata_ljspeech_csv := Some (''ghost|hello|hello'' @ [CHR 0x0A])\<rparr>, None)
   \<and> row_identifier (''ghost|hello|hello'' @ [CHR 0x0A]) = Inr ''ghost''
   \<and> ''ghost'' @ ''.wav'' \<notin> set (raw_audio ghost_files)"
  by code_simp


text \<open>
  C6, amended. In \<open>fix_metadata.py\<close>, a line whose filename field is a stem followed
  by \<open>.wav\<close>, with no \<open>.wav\<close> inside the stem, gives a row whose identifier is
  the stem, so that the identifier with \<open>.wav\<close> is the filename field of the line
  it came from (the audio directory is not consulted). In
  \<open>create_metadata_from_json\<close> the filename of every row is one of the names the
  audio directory lists and has a transcript among the first 80 entries.
\<close>

theorem metadata_identifier_roundtrip:
  "(contains ''|'' (strip raw) \<longrightarrow> input_filename raw = Inr (stem @ ''.wav'') \<longrightarrow>
      \<not> contains ''.wav'' stem \<longrightarrow>
      (\<exists>out. fix_line raw = Inr out \<and> row_identifier out = Inr stem))
   \<and> (\<forall>(f, t) \<in> set (metadata_rows entries listing).
         f \<in> set listing \<and> (\<exists>tr. (f, tr) \<in> set (take 80 entries) \<and> t = clean_transcript tr))"
  using fix_line_identifier [of raw stem] metadata_rows_sound [of _ _ entries listing]
  by blast

lemma clip_line:
  "contains ''|'' (strip ''clip.wav|Hello,  @world!'')"
  "input_filename ''clip.wav|Hello,  @world!'' = Inr (''clip'' @ ''.wav'')"
  "\<not> contains ''.wav'' ''clip''"
  "fix_line ''clip.wav|Hello,  @world!'' = Inr (''clip|Hello, world!|Hello, world!'' @ [CHR 0x0A])"
  by code_simp+

lemma sample_rows:
  "metadata_rows [(''b.wav'', ''x  y''), (''a.wav'', ''first''), (''a.wav'', ''second'')]
     [''c.wav'', ''b.wav'', ''a.wav''] = [(''a.wav'', ''second''), (''b.wav'', ''x y'')]"
  by code_simp

text \<open>One line of each converter.\<close>

theorem metadata_identifier_roundtrip_witness:
  "(\<exists>out. fix_line ''clip.wav|Hello,  @world!'' = Inr out \<and> row_identifier out = Inr ''clip'')
   \<and> (''a.wav'', ''second'') \<in> set (metadata_rows
          [(''b.wav'', ''x  y''), (''a.wav'', ''first''), (''a.wav'', ''second'')]
          [''c.wav'', ''b.wav'', ''a.wav''])
   \<and> ''a.wav'' \<in> set [''c.wav'', ''b.wav'', ''a.wav'']"
  using metadata_identifier_roundtrip [of "''clip.wav|Hello,  @world!''" "''clip''"
      "[(''b.wav'', ''x  y''), (''a.wav'', ''first''), (''a.wav'', ''second'')]"
      "[''c.wav'', ''b.wav'', ''a.wav'']"]
    clip_line(1,2,3)
  by (simp add: sample_rows)

end
